theory Spec2Isabelle
  imports Complex_Main "HOL-Library.Word"
begin

unbundle bit_operations_syntax

section \<open>Errors, byte buffers and number formatting\<close>

text \<open>
  The command-line client is TypeScript on Node.js.  A thrown exception is the left summand
  of a result; \<open>Error\<close> carries the message, \<open>RangeError\<close> is what Node's
  \<open>Buffer\<close> readers and writers throw for a value or an offset out of range.
  A \<open>bigint\<close> is an \<open>int\<close>; a \<open>number\<close> is an \<open>int\<close> where it is a value
  to encode or a count read from the slab, and a \<open>nat\<close> where it is a position of the
  allocator bitmap.  A \<open>Buffer\<close> is a list of bytes.
\<close>

datatype error = Error string | RangeError

type_synonym byte = "8 word"
type_synonym bytes = "byte list"

text \<open>The \<open>n\<close> low bytes of an integer, least significant first.\<close>

fun le_bytes :: "nat \<Rightarrow> int \<Rightarrow> bytes" where
  "le_bytes 0 v = []"
| "le_bytes (Suc n) v = word_of_int v # le_bytes n (v div 256)"

text \<open>The unsigned little-endian value of a byte string.\<close>

fun le_val :: "bytes \<Rightarrow> int" where
  "le_val [] = 0"
| "le_val (b # bs) = uint b + 256 * le_val bs"

text \<open>\<open>Buffer.alloc(n)\<close>: \<open>n\<close> zero bytes.\<close>

definition alloc :: "nat \<Rightarrow> bytes" where
  "alloc n = replicate n 0"

text \<open>
  The writers \<open>b.writeUInt8(v, off)\<close>, \<open>b.writeUInt16LE(v, off)\<close>,
  \<open>b.writeUInt32LE(v, off)\<close> and \<open>b.writeBigUInt64LE(v, off)\<close> overwrite \<open>w\<close> bytes
  at \<open>off\<close> and throw when the value does not fit or the range leaves the buffer.
  The buffer is mutated in place in the source and returned here.
\<close>

definition writeUIntLE :: "nat \<Rightarrow> bytes \<Rightarrow> int \<Rightarrow> nat \<Rightarrow> error + bytes" where
  "writeUIntLE w b v off =
     (if v < 0 \<or> 2 ^ (8 * w) \<le> v then Inl RangeError
      else if length b < off + w then Inl RangeError
      else Inr (take off b @ le_bytes w v @ drop (off + w) b))"

definition writeUInt8 :: "bytes \<Rightarrow> int \<Rightarrow> nat \<Rightarrow> error + bytes" where
  "writeUInt8 = writeUIntLE 1"

definition writeUInt16LE :: "bytes \<Rightarrow> int \<Rightarrow> nat \<Rightarrow> error + bytes" where
  "writeUInt16LE = writeUIntLE 2"

definition writeUInt32LE :: "bytes \<Rightarrow> int \<Rightarrow> nat \<Rightarrow> error + bytes" where
  "writeUInt32LE = writeUIntLE 4"

definition writeBigUInt64LE :: "bytes \<Rightarrow> int \<Rightarrow> nat \<Rightarrow> error + bytes" where
  "writeBigUInt64LE = writeUIntLE 8"

text \<open>Sequencing of statements that may throw.\<close>

definition andThen :: "error + 'a \<Rightarrow> ('a \<Rightarrow> error + 'b) \<Rightarrow> error + 'b" where
  "andThen r f = (case r of Inl e \<Rightarrow> Inl e | Inr x \<Rightarrow> f x)"

text \<open>
  \<open>Buffer.concat([e1, e2, ...])\<close>: the elements of the array literal are evaluated from
  left to right, the first throw leaves the expression, and the results are joined.
\<close>

fun concatBuffers :: "(error + bytes) list \<Rightarrow> error + bytes" where
  "concatBuffers [] = Inr []"
| "concatBuffers (r # rs) =
     (case r of
        Inl e \<Rightarrow> Inl e
      | Inr b \<Rightarrow> (case concatBuffers rs of Inl e \<Rightarrow> Inl e | Inr bs \<Rightarrow> Inr (b @ bs)))"

section \<open>The local encoders of the LP deployment script\<close>

definition encU8 :: "int \<Rightarrow> error + bytes" where
  "encU8 v = writeUInt8 (alloc 1) v 0"

definition encU16LE :: "int \<Rightarrow> error + bytes" where
  "encU16LE v = writeUInt16LE (alloc 2) v 0"

definition encU32LE :: "int \<Rightarrow> error + bytes" where
  "encU32LE v = writeUInt32LE (alloc 4) v 0"

definition encU64LE :: "int \<Rightarrow> error + bytes" where
  "encU64LE v = writeBigUInt64LE (alloc 8) v 0"

definition encU128LE :: "int \<Rightarrow> error + bytes" where
  "encU128LE v =
     andThen (writeBigUInt64LE (alloc 16) (v AND 0xFFFFFFFFFFFFFFFF) 0)
       (\<lambda>b. writeBigUInt64LE b (drop_bit 64 v) 8)"

definition encI128LE :: "int \<Rightarrow> error + bytes" where
  "encI128LE v =
     (let unsigned = (if v < 0 then push_bit 128 1 + v else v) in
      andThen (writeBigUInt64LE (alloc 16) (unsigned AND 0xFFFFFFFFFFFFFFFF) 0)
        (\<lambda>b. writeBigUInt64LE b (drop_bit 64 unsigned AND 0xFFFFFFFFFFFFFFFF) 8))"

text \<open>
  A \<open>PublicKey\<close> of the Solana library is 32 bytes; \<open>toBytes\<close> returns them.
\<close>

typedef PublicKey = "{bs :: bytes. length bs = 32}"
  morphisms toBytes PublicKey
  by (rule exI [of _ "replicate 32 0"]) simp

definition encPubkey :: "PublicKey \<Rightarrow> error + bytes" where
  "encPubkey pk = Inr (toBytes pk)"

text \<open>Two keys for the worked instances below.\<close>

definition key0 :: PublicKey where
  "key0 = PublicKey (replicate 32 0)"

definition key1 :: PublicKey where
  "key1 = PublicKey (1 # replicate 31 0)"

definition buildInitLpData :: "PublicKey \<Rightarrow> PublicKey \<Rightarrow> int \<Rightarrow> error + bytes" where
  "buildInitLpData matcherProg matcherCtx fee =
     concatBuffers [encU8 2, encPubkey matcherProg, encPubkey matcherCtx, encU64LE fee]"

definition buildDepositData :: "int \<Rightarrow> int \<Rightarrow> error + bytes" where
  "buildDepositData userIdx amount =
     concatBuffers [encU8 3, encU16LE userIdx, encU64LE amount]"

definition buildKeeperCrankData :: "int \<Rightarrow> error + bytes" where
  "buildKeeperCrankData callerIdx =
     concatBuffers [encU8 5, encU16LE callerIdx, encU8 0]"

definition buildTradeCpiData :: "int \<Rightarrow> int \<Rightarrow> int \<Rightarrow> error + bytes" where
  "buildTradeCpiData lpIdx userIdx sz =
     concatBuffers [encU8 10, encU16LE lpIdx, encU16LE userIdx, encI128LE sz]"

section \<open>The instruction encoders of the ABI module\<close>

text \<open>
  The instruction encoders import their primitive encoders from the module \<open>abi/encode\<close>,
  which is not part of the sources this development works from.  The specification fixes
  them as far as it goes: all multi-byte integers are little-endian, at the widths of the
  operation taxonomy, signed ones in two's complement, and a value that does not fit its
  width is an error, never a silent wrap.  The byte vectors of the ABI tests agree with
  the definitions below.  An argument typed \<open>bigint | string\<close> is taken after its
  conversion to a \<open>bigint\<close>, one typed \<open>PublicKey | string\<close> after its conversion to a
  key.
\<close>

text \<open>Modelled from the spec: \<open>encU8\<close> of \<open>abi/encode\<close>, one byte.\<close>

definition encU8_abi :: "int \<Rightarrow> error + bytes" where
  "encU8_abi v = (if 0 \<le> v \<and> v < 2 ^ 8 then Inr (le_bytes 1 v) else Inl RangeError)"

text \<open>Modelled from the spec: \<open>encU16\<close> of \<open>abi/encode\<close>, two bytes little-endian.\<close>

definition encU16 :: "int \<Rightarrow> error + bytes" where
  "encU16 v = (if 0 \<le> v \<and> v < 2 ^ 16 then Inr (le_bytes 2 v) else Inl RangeError)"

text \<open>Modelled from the spec: \<open>encU32\<close> of \<open>abi/encode\<close>, four bytes little-endian.\<close>

definition encU32 :: "int \<Rightarrow> error + bytes" where
  "encU32 v = (if 0 \<le> v \<and> v < 2 ^ 32 then Inr (le_bytes 4 v) else Inl RangeError)"

text \<open>Modelled from the spec: \<open>encU64\<close> of \<open>abi/encode\<close>, eight bytes little-endian.\<close>

definition encU64 :: "int \<Rightarrow> error + bytes" where
  "encU64 v = (if 0 \<le> v \<and> v < 2 ^ 64 then Inr (le_bytes 8 v) else Inl RangeError)"

text \<open>Modelled from the spec: \<open>encU128\<close> of \<open>abi/encode\<close>, sixteen bytes little-endian.\<close>

definition encU128 :: "int \<Rightarrow> error + bytes" where
  "encU128 v = (if 0 \<le> v \<and> v < 2 ^ 128 then Inr (le_bytes 16 v) else Inl RangeError)"

text \<open>
  Modelled from the spec: \<open>encI128\<close> of \<open>abi/encode\<close>, sixteen bytes little-endian in
  two's complement.
\<close>

definition encI128 :: "int \<Rightarrow> error + bytes" where
  "encI128 v =
     (if - (2 ^ 127) \<le> v \<and> v < 2 ^ 127 then Inr (le_bytes 16 v) else Inl RangeError)"

text \<open>Modelled from the spec: \<open>encPubkey\<close> of \<open>abi/encode\<close>, the 32 bytes of the key.\<close>

definition encPubkey_abi :: "PublicKey \<Rightarrow> error + bytes" where
  "encPubkey_abi pk = Inr (toBytes pk)"

text \<open>The instruction tags \<open>IX_TAG\<close>.\<close>

definition IX_InitMarket :: int where "IX_InitMarket = 0"
definition IX_InitUser :: int where "IX_InitUser = 1"
definition IX_InitLP :: int where "IX_InitLP = 2"
definition IX_DepositCollateral :: int where "IX_DepositCollateral = 3"
definition IX_WithdrawCollateral :: int where "IX_WithdrawCollateral = 4"
definition IX_KeeperCrank :: int where "IX_KeeperCrank = 5"
definition IX_TradeNoCpi :: int where "IX_TradeNoCpi = 6"
definition IX_LiquidateAtOracle :: int where "IX_LiquidateAtOracle = 7"
definition IX_CloseAccount :: int where "IX_CloseAccount = 8"
definition IX_TopUpInsurance :: int where "IX_TopUpInsurance = 9"
definition IX_TradeCpi :: int where "IX_TradeCpi = 10"
definition IX_SetRiskThreshold :: int where "IX_SetRiskThreshold = 11"
definition IX_UpdateAdmin :: int where "IX_UpdateAdmin = 12"
definition IX_CloseSlab :: int where "IX_CloseSlab = 13"

text \<open>
  Decimal rendering of a number in a template literal, for the messages of thrown errors
  and of check results.
\<close>

definition digit_char :: "nat \<Rightarrow> char" where
  "digit_char d = char_of (of_char (CHR ''0'') + d)"

function show_nat :: "nat \<Rightarrow> string" where
  "show_nat n = (if n < 10 then [digit_char n] else show_nat (n div 10) @ [digit_char (n mod 10)])"
  by pat_completeness auto
termination
  by (relation "measure id") auto

declare show_nat.simps [simp del]

definition show_int :: "int \<Rightarrow> string" where
  "show_int i = (if i < 0 then CHR ''-'' # show_nat (nat (- i)) else show_nat (nat i))"

text \<open>
  \<open>Buffer.from(hex, "hex")\<close> decodes two hexadecimal digits per byte and stops at the
  first pair that is not hexadecimal.
\<close>

definition hexval :: "char \<Rightarrow> nat option" where
  "hexval c =
     (let n = (of_char c :: nat) in
      if 48 \<le> n \<and> n \<le> 57 then Some (n - 48)
      else if 97 \<le> n \<and> n \<le> 102 then Some (n - 87)
      else if 65 \<le> n \<and> n \<le> 70 then Some (n - 55)
      else None)"

fun bufferFromHex :: "string \<Rightarrow> bytes" where
  "bufferFromHex (a # b # cs) =
     (case (hexval a, hexval b) of
        (Some x, Some y) \<Rightarrow> of_nat (16 * x + y) # bufferFromHex cs
      | _ \<Rightarrow> [])"
| "bufferFromHex _ = []"

definition encodeFeedId :: "string \<Rightarrow> error + bytes" where
  "encodeFeedId feedId =
     (let hex = (if take 2 feedId = ''0x'' then drop 2 feedId else feedId) in
      if length hex \<noteq> 64
      then Inl (Error (''Invalid feed ID length: expected 64 hex chars, got '' @ show_nat (length hex)))
      else Inr (bufferFromHex hex))"

record InitMarketArgs =
  admin :: PublicKey
  collateralMint :: PublicKey
  indexFeedId :: string
  maxStalenessSecs :: int
  confFilterBps :: int
  invert :: int
  unitScale :: int
  warmupPeriodSlots :: int
  maintenanceMarginBps :: int
  initialMarginBps :: int
  tradingFeeBps :: int
  maxAccounts :: int
  newAccountFee :: int
  riskReductionThreshold :: int
  maintenanceFeePerSlot :: int
  maxCrankStalenessSlots :: int
  liquidationFeeBps :: int
  liquidationFeeCap :: int
  liquidationBufferBps :: int
  minLiquidationAbs :: int

definition encodeInitMarket :: "InitMarketArgs \<Rightarrow> error + bytes" where
  "encodeInitMarket args =
     concatBuffers
      [encU8_abi IX_InitMarket,
       encPubkey_abi (admin args),
       encPubkey_abi (collateralMint args),
       encodeFeedId (indexFeedId args),
       encU64 (maxStalenessSecs args),
       encU16 (confFilterBps args),
       encU8_abi (invert args),
       encU32 (unitScale args),
       encU64 (warmupPeriodSlots args),
       encU64 (maintenanceMarginBps args),
       encU64 (initialMarginBps args),
       encU64 (tradingFeeBps args),
       encU64 (maxAccounts args),
       encU128 (newAccountFee args),
       encU128 (riskReductionThreshold args),
       encU128 (maintenanceFeePerSlot args),
       encU64 (maxCrankStalenessSlots args),
       encU64 (liquidationFeeBps args),
       encU128 (liquidationFeeCap args),
       encU64 (liquidationBufferBps args),
       encU128 (minLiquidationAbs args)]"

text \<open>The \<open>InitMarket\<close> arguments of the ABI test, with two fixed keys.\<close>

definition initMarketExample :: InitMarketArgs where
  "initMarketExample =
     \<lparr>admin = key0, collateralMint = key1,
      indexFeedId = ''e62df6c8b4a85fe1a67db44dc12de5db330f7ac66b72dc658afedf0f4a415b43'',
      maxStalenessSecs = 60, confFilterBps = 50, invert = 0, unitScale = 0,
      warmupPeriodSlots = 1000, maintenanceMarginBps = 500, initialMarginBps = 1000,
      tradingFeeBps = 10, maxAccounts = 1000, newAccountFee = 1000000,
      riskReductionThreshold = 1000000000, maintenanceFeePerSlot = 100,
      maxCrankStalenessSlots = 50, liquidationFeeBps = 100, liquidationFeeCap = 10000000,
      liquidationBufferBps = 50, minLiquidationAbs = 1000000\<rparr>"

record InitUserArgs =
  feePayment :: int

definition encodeInitUser :: "InitUserArgs \<Rightarrow> error + bytes" where
  "encodeInitUser args = concatBuffers [encU8_abi IX_InitUser, encU64 (InitUserArgs.feePayment args)]"

record InitLPArgs =
  matcherProgram :: PublicKey
  matcherContext :: PublicKey
  feePayment :: int

definition encodeInitLP :: "InitLPArgs \<Rightarrow> error + bytes" where
  "encodeInitLP args =
     concatBuffers
      [encU8_abi IX_InitLP,
       encPubkey_abi (matcherProgram args),
       encPubkey_abi (matcherContext args),
       encU64 (InitLPArgs.feePayment args)]"

record DepositCollateralArgs =
  userIdx :: int
  amount :: int

definition encodeDepositCollateral :: "DepositCollateralArgs \<Rightarrow> error + bytes" where
  "encodeDepositCollateral args =
     concatBuffers
      [encU8_abi IX_DepositCollateral,
       encU16 (DepositCollateralArgs.userIdx args),
       encU64 (DepositCollateralArgs.amount args)]"

record WithdrawCollateralArgs =
  userIdx :: int
  amount :: int

definition encodeWithdrawCollateral :: "WithdrawCollateralArgs \<Rightarrow> error + bytes" where
  "encodeWithdrawCollateral args =
     concatBuffers
      [encU8_abi IX_WithdrawCollateral,
       encU16 (WithdrawCollateralArgs.userIdx args),
       encU64 (WithdrawCollateralArgs.amount args)]"

record KeeperCrankArgs =
  callerIdx :: int
  allowPanic :: bool

definition encodeKeeperCrank :: "KeeperCrankArgs \<Rightarrow> error + bytes" where
  "encodeKeeperCrank args =
     concatBuffers
      [encU8_abi IX_KeeperCrank,
       encU16 (callerIdx args),
       encU8_abi (if allowPanic args then 1 else 0)]"

record TradeNoCpiArgs =
  lpIdx :: int
  userIdx :: int
  size' :: int

definition encodeTradeNoCpi :: "TradeNoCpiArgs \<Rightarrow> error + bytes" where
  "encodeTradeNoCpi args =
     concatBuffers
      [encU8_abi IX_TradeNoCpi,
       encU16 (TradeNoCpiArgs.lpIdx args),
       encU16 (TradeNoCpiArgs.userIdx args),
       encI128 (TradeNoCpiArgs.size' args)]"

record LiquidateAtOracleArgs =
  targetIdx :: int

definition encodeLiquidateAtOracle :: "LiquidateAtOracleArgs \<Rightarrow> error + bytes" where
  "encodeLiquidateAtOracle args =
     concatBuffers [encU8_abi IX_LiquidateAtOracle, encU16 (targetIdx args)]"

record CloseAccountArgs =
  userIdx :: int

definition encodeCloseAccount :: "CloseAccountArgs \<Rightarrow> error + bytes" where
  "encodeCloseAccount args =
     concatBuffers [encU8_abi IX_CloseAccount, encU16 (CloseAccountArgs.userIdx args)]"

record TopUpInsuranceArgs =
  amount :: int

definition encodeTopUpInsurance :: "TopUpInsuranceArgs \<Rightarrow> error + bytes" where
  "encodeTopUpInsurance args =
     concatBuffers [encU8_abi IX_TopUpInsurance, encU64 (TopUpInsuranceArgs.amount args)]"

record TradeCpiArgs =
  lpIdx :: int
  userIdx :: int
  size' :: int

definition encodeTradeCpi :: "TradeCpiArgs \<Rightarrow> error + bytes" where
  "encodeTradeCpi args =
     concatBuffers
      [encU8_abi IX_TradeCpi,
       encU16 (TradeCpiArgs.lpIdx args),
       encU16 (TradeCpiArgs.userIdx args),
       encI128 (TradeCpiArgs.size' args)]"

record SetRiskThresholdArgs =
  newThreshold :: int

definition encodeSetRiskThreshold :: "SetRiskThresholdArgs \<Rightarrow> error + bytes" where
  "encodeSetRiskThreshold args =
     concatBuffers [encU8_abi IX_SetRiskThreshold, encU128 (newThreshold args)]"

record UpdateAdminArgs =
  newAdmin :: PublicKey

definition encodeUpdateAdmin :: "UpdateAdminArgs \<Rightarrow> error + bytes" where
  "encodeUpdateAdmin args =
     concatBuffers [encU8_abi IX_UpdateAdmin, encPubkey_abi (newAdmin args)]"

definition encodeCloseSlab :: "error + bytes" where
  "encodeCloseSlab = encU8_abi IX_CloseSlab"

section \<open>Account metas\<close>

record AccountSpec =
  name :: string
  signer :: bool
  writable :: bool

record AccountMeta =
  pubkey :: PublicKey
  isSigner :: bool
  isWritable :: bool

definition ACCOUNTS_KEEPER_CRANK :: "AccountSpec list" where
  "ACCOUNTS_KEEPER_CRANK =
     [\<lparr>name = ''caller'', signer = True, writable = False\<rparr>,
      \<lparr>name = ''slab'', signer = False, writable = True\<rparr>,
      \<lparr>name = ''clock'', signer = False, writable = False\<rparr>,
      \<lparr>name = ''oracle'', signer = False, writable = False\<rparr>]"

definition ACCOUNTS_SET_RISK_THRESHOLD :: "AccountSpec list" where
  "ACCOUNTS_SET_RISK_THRESHOLD =
     [\<lparr>name = ''admin'', signer = True, writable = False\<rparr>,
      \<lparr>name = ''slab'', signer = False, writable = True\<rparr>]"

text \<open>
  \<open>spec.map((s, i) => ...)\<close> reads \<open>keys[i]\<close> for every position of the spec; the
  length check before it keeps each read inside \<open>keys\<close>.
\<close>

definition buildAccountMetas :: "AccountSpec list \<Rightarrow> PublicKey list \<Rightarrow> error + AccountMeta list" where
  "buildAccountMetas spec keys =
     (if length keys \<noteq> length spec
      then Inl (Error (''Account count mismatch: expected '' @ show_nat (length spec)
                        @ '', got '' @ show_nat (length keys)))
      else Inr (map (\<lambda>(s, i). \<lparr>pubkey = keys ! i, isSigner = signer s, isWritable = writable s\<rparr>)
                  (zip spec [0..<length spec])))"

section \<open>Passive quotes of the best-price command\<close>

text \<open>
  Division of \<open>bigint\<close>s truncates towards zero; the divisor of the quotes is the
  constant \<open>BPS_DENOM\<close>, so the division never throws.
\<close>

definition bigint_div :: "int \<Rightarrow> int \<Rightarrow> int" where
  "bigint_div a b =
     (if (a < 0) = (b < 0) then \<bar>a\<bar> div \<bar>b\<bar> else - (\<bar>a\<bar> div \<bar>b\<bar>))"

definition BPS_DENOM :: int where
  "BPS_DENOM = 10000"

record Quote =
  bid :: int
  ask :: int

definition computePassiveQuote :: "int \<Rightarrow> int \<Rightarrow> Quote" where
  "computePassiveQuote oraclePrice edgeBps =
     (let bid = bigint_div (oraclePrice * (BPS_DENOM - edgeBps)) BPS_DENOM;
          askNumer = oraclePrice * (BPS_DENOM + edgeBps);
          ask = bigint_div (askNumer + BPS_DENOM - 1) BPS_DENOM
      in \<lparr>bid = bid, ask = ask\<rparr>)"

section \<open>The invariant checker of the test suite\<close>

text \<open>
  The parsed views of the slab.  Their declarations belong to the slab parser; only the
  fields the checks read are kept.
\<close>

record SlabHeader =
  magic :: int
  version :: int
  bump :: int
  admin :: PublicKey
  nonce :: int
  lastThrUpdateSlot :: int

record InsuranceFund =
  balance :: int
  feeRevenue :: int

record EngineState =
  vault :: int
  insuranceFund :: InsuranceFund
  nextAccountId :: int
  numUsedAccounts :: int

record RiskParams =
  maintenanceMarginBps :: int
  initialMarginBps :: int
  tradingFeeBps :: int
  maxAccounts :: int

record Account =
  accountId :: int
  capital :: int
  positionSize :: int

record InvariantResult =
  name :: string
  passed :: bool
  expected :: "string option"
  actual :: "string option"
  message :: "string option"

record InvariantReport =
  passed :: bool
  results :: "InvariantResult list"

text \<open>\<open>toString(16)\<close> of a \<open>bigint\<close>.\<close>

definition hex_char :: "nat \<Rightarrow> char" where
  "hex_char d = (if d < 10 then digit_char d else char_of (of_char (CHR ''a'') + (d - 10)))"

function show_hex_nat :: "nat \<Rightarrow> string" where
  "show_hex_nat n = (if n < 16 then [hex_char n] else show_hex_nat (n div 16) @ [hex_char (n mod 16)])"
  by pat_completeness auto
termination
  by (relation "measure id") auto

declare show_hex_nat.simps [simp del]

definition show_hex :: "int \<Rightarrow> string" where
  "show_hex i = (if i < 0 then CHR ''-'' # show_hex_nat (nat (- i)) else show_hex_nat (nat i))"

text \<open>
  \<open>new Map(accounts.map(a => [a.idx, a.account]))\<close>: of two entries with one index the
  later one stays.
\<close>

definition accountMap :: "(nat \<times> Account) list \<Rightarrow> nat \<rightharpoonup> Account" where
  "accountMap accounts = map_of (rev accounts)"

definition EXPECTED_MAGIC :: int where
  "EXPECTED_MAGIC = 0x504552434f4c4154"

definition checkMagicNumber :: "SlabHeader \<Rightarrow> InvariantResult" where
  "checkMagicNumber header =
     \<lparr>name = ''I1: Magic number'',
      passed = (magic header = EXPECTED_MAGIC),
      expected = Some (''0x'' @ show_hex EXPECTED_MAGIC),
      actual = Some (''0x'' @ show_hex (magic header)),
      message = None\<rparr>"

definition checkBitmapConsistency ::
  "EngineState \<Rightarrow> nat list \<Rightarrow> (nat \<times> Account) list \<Rightarrow> InvariantResult" where
  "checkBitmapConsistency engine usedIndices accounts =
     (case find (\<lambda>idx. accountMap accounts idx = None) usedIndices of
        Some idx \<Rightarrow>
          \<lparr>name = ''I2: Bitmap consistency'', passed = False, expected = None, actual = None,
           message = Some (''Used index '' @ show_nat idx @ '' not found in accounts array'')\<rparr>
      | None \<Rightarrow>
          if int (length usedIndices) \<noteq> numUsedAccounts engine
          then \<lparr>name = ''I2: Bitmap consistency'', passed = False,
                expected = Some (show_int (numUsedAccounts engine) @ '' used accounts''),
                actual = Some (show_nat (length usedIndices) @ '' bitmap bits set''),
                message = None\<rparr>
          else \<lparr>name = ''I2: Bitmap consistency'', passed = True, expected = None, actual = None,
                message = None\<rparr>)"

text \<open>The loop over the used indices, with the set of ids seen so far.\<close>

fun accountIdLoop :: "(nat \<rightharpoonup> Account) \<Rightarrow> string set \<Rightarrow> nat list \<Rightarrow> InvariantResult" where
  "accountIdLoop m seenIds [] =
     \<lparr>name = ''I3: Account ID uniqueness'', passed = True, expected = None, actual = None,
      message = None\<rparr>"
| "accountIdLoop m seenIds (idx # rest) =
     (case m idx of
        None \<Rightarrow> accountIdLoop m seenIds rest
      | Some acc \<Rightarrow>
          (let idStr = show_int (accountId acc) in
           if idStr \<in> seenIds
           then \<lparr>name = ''I3: Account ID uniqueness'', passed = False, expected = None,
                 actual = None, message = Some (''Duplicate account ID: '' @ idStr)\<rparr>
           else accountIdLoop m (insert idStr seenIds) rest))"

definition checkAccountIdUniqueness :: "(nat \<times> Account) list \<Rightarrow> nat list \<Rightarrow> InvariantResult" where
  "checkAccountIdUniqueness accounts usedIndices =
     accountIdLoop (accountMap accounts) {} usedIndices"

text \<open>The sum the conservation check accumulates over the used indices.\<close>

definition totalUserCapital :: "(nat \<times> Account) list \<Rightarrow> nat list \<Rightarrow> int" where
  "totalUserCapital accounts usedIndices =
     foldl (\<lambda>total idx. case accountMap accounts idx of
                           None \<Rightarrow> total
                         | Some acc \<Rightarrow> total + capital acc) 0 usedIndices"

text \<open>
  The vault's token balance is fetched from the chain: \<open>Inr\<close> the amount, \<open>Inl\<close> the
  message of the error the fetch threw.
\<close>

definition checkCollateralConservation ::
  "string + int \<Rightarrow> (nat \<times> Account) list \<Rightarrow> nat list \<Rightarrow> EngineState \<Rightarrow> InvariantResult" where
  "checkCollateralConservation vaultFetch accounts usedIndices engine =
     (let totalInSlab = totalUserCapital accounts usedIndices + balance (insuranceFund engine) in
      case vaultFetch of
        Inl msg \<Rightarrow>
          \<lparr>name = ''I4: Collateral conservation'', passed = False, expected = None, actual = None,
           message = Some (''Failed to fetch vault: '' @ msg)\<rparr>
      | Inr vaultBalance \<Rightarrow>
          (let diff = (if totalInSlab > vaultBalance then totalInSlab - vaultBalance
                       else vaultBalance - totalInSlab) in
           if diff > 200000
           then \<lparr>name = ''I4: Collateral conservation'', passed = False,
                 expected = Some (''Slab total: '' @ show_int totalInSlab),
                 actual = Some (''Vault balance: '' @ show_int vaultBalance),
                 message = Some (''Difference: '' @ show_int diff)\<rparr>
           else \<lparr>name = ''I4: Collateral conservation'', passed = True, expected = None,
                 actual = None,
                 message = Some (''Total: '' @ show_int totalInSlab @ '', Vault: ''
                                 @ show_int vaultBalance @ '', Diff: '' @ show_int diff)\<rparr>))"

definition totalLong :: "(nat \<times> Account) list \<Rightarrow> nat list \<Rightarrow> int" where
  "totalLong accounts usedIndices =
     foldl (\<lambda>total idx. case accountMap accounts idx of
                           None \<Rightarrow> total
                         | Some acc \<Rightarrow> if positionSize acc > 0 then total + positionSize acc
                                       else total) 0 usedIndices"

definition totalShort :: "(nat \<times> Account) list \<Rightarrow> nat list \<Rightarrow> int" where
  "totalShort accounts usedIndices =
     foldl (\<lambda>total idx. case accountMap accounts idx of
                           None \<Rightarrow> total
                         | Some acc \<Rightarrow> if positionSize acc > 0 then total
                                       else if positionSize acc < 0 then total + - positionSize acc
                                       else total) 0 usedIndices"

definition checkOpenInterestBalance :: "(nat \<times> Account) list \<Rightarrow> nat list \<Rightarrow> InvariantResult" where
  "checkOpenInterestBalance accounts usedIndices =
     (let long = totalLong accounts usedIndices;
          short = totalShort accounts usedIndices;
          diff = (if long > short then long - short else short - long)
      in \<lparr>name = ''I5: Open interest balance'', passed = True, expected = None, actual = None,
          message = Some (''Long: '' @ show_int long @ '', Short: '' @ show_int short
                          @ '', Imbalance: '' @ show_int diff)\<rparr>)"

fun negativeBalanceLoop :: "(nat \<rightharpoonup> Account) \<Rightarrow> nat list \<Rightarrow> InvariantResult" where
  "negativeBalanceLoop m [] =
     \<lparr>name = ''I6: No negative balances'', passed = True, expected = None, actual = None,
      message = None\<rparr>"
| "negativeBalanceLoop m (idx # rest) =
     (case m idx of
        None \<Rightarrow> negativeBalanceLoop m rest
      | Some acc \<Rightarrow>
          if capital acc > 2 ^ 100
          then \<lparr>name = ''I6: No negative balances'', passed = False, expected = None,
                actual = None,
                message = Some (''Account '' @ show_nat idx @ '' has suspiciously large capital: ''
                                @ show_int (capital acc))\<rparr>
          else negativeBalanceLoop m rest)"

definition checkNoNegativeBalances :: "(nat \<times> Account) list \<Rightarrow> nat list \<Rightarrow> InvariantResult" where
  "checkNoNegativeBalances accounts usedIndices =
     negativeBalanceLoop (accountMap accounts) usedIndices"

text \<open>
  \<open>Number(params.maxAccounts)\<close> is exact below \<open>2 ^ 53\<close> and monotone above, and
  \<open>numUsedAccounts\<close> is a 16-bit count, so the comparison is the one of the integers.
\<close>

definition checkAccountCountConsistency :: "EngineState \<Rightarrow> RiskParams \<Rightarrow> nat list \<Rightarrow> InvariantResult" where
  "checkAccountCountConsistency engine params usedIndices =
     (let maxAccounts = RiskParams.maxAccounts params in
      if numUsedAccounts engine > maxAccounts
      then \<lparr>name = ''I7: Account count consistency'', passed = False, expected = None,
            actual = None,
            message = Some (''numUsedAccounts ('' @ show_int (numUsedAccounts engine)
                            @ '') > maxAccounts ('' @ show_int maxAccounts @ '')'')\<rparr>
      else \<lparr>name = ''I7: Account count consistency'', passed = True, expected = None,
            actual = None,
            message = Some (''Used: '' @ show_int (numUsedAccounts engine) @ ''/''
                            @ show_int maxAccounts)\<rparr>)"

text \<open>
  \<open>checkAll\<close> on the parsed slab, as the snapshot holds it (the header, the engine
  state, the risk parameters, the account list, the used indices of the bitmap), and on the
  result of fetching the vault.
\<close>

record SlabSnapshot =
  header :: SlabHeader
  engine :: EngineState
  params :: RiskParams
  accounts :: "(nat \<times> Account) list"
  usedIndices :: "nat list"

definition checkAll :: "string + int \<Rightarrow> SlabSnapshot \<Rightarrow> InvariantReport" where
  "checkAll vaultFetch snapshot =
     (let results =
        [checkMagicNumber (header snapshot),
         checkBitmapConsistency (engine snapshot) (usedIndices snapshot) (accounts snapshot),
         checkAccountIdUniqueness (accounts snapshot) (usedIndices snapshot),
         checkCollateralConservation vaultFetch (accounts snapshot) (usedIndices snapshot)
           (engine snapshot),
         checkOpenInterestBalance (accounts snapshot) (usedIndices snapshot),
         checkNoNegativeBalances (accounts snapshot) (usedIndices snapshot),
         checkAccountCountConsistency (engine snapshot) (params snapshot) (usedIndices snapshot)]
      in \<lparr>passed = list_all InvariantResult.passed results, results = results\<rparr>)"

section \<open>The conservation check of the happy-path script\<close>

text \<open>
  The state the script reads back: the engine and the accounts of the used indices.  The
  check also logs a line when it fails; it returns \<open>ok\<close>.
\<close>

record State =
  engine :: EngineState
  accounts :: "(nat \<times> Account) list"

definition checkConservation :: "State \<Rightarrow> string \<Rightarrow> bool" where
  "checkConservation state label =
     (let e = State.engine state;
          totalCap = foldl (\<lambda>s a. s + capital (snd a)) 0 (State.accounts state);
          ins = balance (insuranceFund e);
          vault = vault e;
          slack = vault - totalCap - ins
      in slack \<ge> 0)"

section \<open>The margin assertions of the market-boot test\<close>

definition assert :: "bool \<Rightarrow> string \<Rightarrow> error + unit" where
  "assert condition msg = (if \<not> condition then Inl (Error (''Assertion failed: '' @ msg)) else Inr ())"

text \<open>Test T1.3 on the snapshot it took of the fresh market.\<close>

definition T1_3_market_config_verification :: "SlabSnapshot \<Rightarrow> error + unit" where
  "T1_3_market_config_verification snapshot =
     andThen (assert (RiskParams.initialMarginBps (params snapshot) > 0) ''IM ratio should be positive'')
      (\<lambda>_. andThen (assert (RiskParams.maintenanceMarginBps (params snapshot) > 0)
                      ''MM ratio should be positive'')
      (\<lambda>_. assert (RiskParams.initialMarginBps (params snapshot)
                      \<ge> RiskParams.maintenanceMarginBps (params snapshot))
              ''IM ratio should be >= MM ratio''))"

section \<open>The properties of the specification\<close>

text \<open>
  The sums of the specification's invariants run over the used accounts: the slots of the
  used indices that hold an account.
\<close>

definition usedAccounts :: "(nat \<times> Account) list \<Rightarrow> nat list \<Rightarrow> Account list" where
  "usedAccounts accs used = List.map_filter (accountMap accs) used"

definition sum_capital :: "(nat \<times> Account) list \<Rightarrow> nat list \<Rightarrow> int" where
  "sum_capital accs used = sum_list (map capital (usedAccounts accs used))"

definition sum_long :: "(nat \<times> Account) list \<Rightarrow> nat list \<Rightarrow> int" where
  "sum_long accs used = sum_list (map (\<lambda>a. max (positionSize a) 0) (usedAccounts accs used))"

definition sum_short :: "(nat \<times> Account) list \<Rightarrow> nat list \<Rightarrow> int" where
  "sum_short accs used = sum_list (map (\<lambda>a. max (- positionSize a) 0) (usedAccounts accs used))"

text \<open>
  Conservation as the specification words it (P1): the vault equals the capital of the used
  accounts plus the insurance balance plus \<open>pnl_pos_tot\<close> plus a dust of at most one
  lamport for each settlement of the operation.
\<close>

definition spec_conservation :: "int \<Rightarrow> int \<Rightarrow> int \<Rightarrow> int \<Rightarrow> nat \<Rightarrow> bool" where
  "spec_conservation vaultBalance capitalSum insuranceBalance pnl_pos_tot settlements =
     (\<bar>vaultBalance - (capitalSum + insuranceBalance + pnl_pos_tot)\<bar> \<le> int settlements)"

text \<open>
  The two's-complement reading of a byte string as a signed 128-bit little-endian integer,
  as the specification's data model describes \<open>i128\<close> fields.
\<close>

definition decI128LE :: "bytes \<Rightarrow> int" where
  "decI128LE bs = (let u = le_val bs in if 2 ^ 127 \<le> u then u - 2 ^ 128 else u)"

text \<open>
  The operation taxonomy of the specification: each operation has a tag and a payload of
  fields, packed little-endian in the listed order.
\<close>

datatype field = U8 int | U16 int | U32 int | U64 int | U128 int | I128 int | Bytes32 bytes

fun packed :: "field \<Rightarrow> bytes" where
  "packed (U8 v) = le_bytes 1 v"
| "packed (U16 v) = le_bytes 2 v"
| "packed (U32 v) = le_bytes 4 v"
| "packed (U64 v) = le_bytes 8 v"
| "packed (U128 v) = le_bytes 16 v"
| "packed (I128 v) = le_bytes 16 v"
| "packed (Bytes32 b) = b"

fun fits :: "field \<Rightarrow> bool" where
  "fits (U8 v) = (0 \<le> v \<and> v < 2 ^ 8)"
| "fits (U16 v) = (0 \<le> v \<and> v < 2 ^ 16)"
| "fits (U32 v) = (0 \<le> v \<and> v < 2 ^ 32)"
| "fits (U64 v) = (0 \<le> v \<and> v < 2 ^ 64)"
| "fits (U128 v) = (0 \<le> v \<and> v < 2 ^ 128)"
| "fits (I128 v) = (- (2 ^ 127) \<le> v \<and> v < 2 ^ 127)"
| "fits (Bytes32 b) = (length b = 32)"

datatype operation =
    InitMarket InitMarketArgs
  | InitUser InitUserArgs
  | InitLP InitLPArgs
  | DepositCollateral DepositCollateralArgs
  | WithdrawCollateral WithdrawCollateralArgs
  | KeeperCrank KeeperCrankArgs
  | TradeNoCpi TradeNoCpiArgs
  | LiquidateAtOracle LiquidateAtOracleArgs
  | CloseAccount CloseAccountArgs
  | TopUpInsurance TopUpInsuranceArgs
  | TradeCpi TradeCpiArgs
  | SetRiskThreshold SetRiskThresholdArgs
  | UpdateAdmin UpdateAdminArgs
  | CloseSlab

text \<open>The encoder the client has for each operation.\<close>

fun encodeOperation :: "operation \<Rightarrow> error + bytes" where
  "encodeOperation (InitMarket args) = encodeInitMarket args"
| "encodeOperation (InitUser args) = encodeInitUser args"
| "encodeOperation (InitLP args) = encodeInitLP args"
| "encodeOperation (DepositCollateral args) = encodeDepositCollateral args"
| "encodeOperation (WithdrawCollateral args) = encodeWithdrawCollateral args"
| "encodeOperation (KeeperCrank args) = encodeKeeperCrank args"
| "encodeOperation (TradeNoCpi args) = encodeTradeNoCpi args"
| "encodeOperation (LiquidateAtOracle args) = encodeLiquidateAtOracle args"
| "encodeOperation (CloseAccount args) = encodeCloseAccount args"
| "encodeOperation (TopUpInsurance args) = encodeTopUpInsurance args"
| "encodeOperation (TradeCpi args) = encodeTradeCpi args"
| "encodeOperation (SetRiskThreshold args) = encodeSetRiskThreshold args"
| "encodeOperation (UpdateAdmin args) = encodeUpdateAdmin args"
| "encodeOperation CloseSlab = encodeCloseSlab"

text \<open>
  The feed id of \<open>InitMarket\<close> is given as 64 hexadecimal digits, with or without the
  prefix \<open>0x\<close>.
\<close>

definition feedIdHex :: "string \<Rightarrow> string" where
  "feedIdHex feedId = (if take 2 feedId = ''0x'' then drop 2 feedId else feedId)"

definition validFeedId :: "string \<Rightarrow> bool" where
  "validFeedId feedId =
     (length (feedIdHex feedId) = 64 \<and> list_all (\<lambda>c. hexval c \<noteq> None) (feedIdHex feedId))"

text \<open>
  The rows of the taxonomy: the tag and the payload fields of each operation.  The risk
  parameters of \<open>InitMarket\<close> are the 144 bytes of the data model's risk parameters up
  to the funding configuration, in its order.
\<close>

fun taxonomy_tag :: "operation \<Rightarrow> int" where
  "taxonomy_tag (InitMarket _) = 0"
| "taxonomy_tag (InitUser _) = 1"
| "taxonomy_tag (InitLP _) = 2"
| "taxonomy_tag (DepositCollateral _) = 3"
| "taxonomy_tag (WithdrawCollateral _) = 4"
| "taxonomy_tag (KeeperCrank _) = 5"
| "taxonomy_tag (TradeNoCpi _) = 6"
| "taxonomy_tag (LiquidateAtOracle _) = 7"
| "taxonomy_tag (CloseAccount _) = 8"
| "taxonomy_tag (TopUpInsurance _) = 9"
| "taxonomy_tag (TradeCpi _) = 10"
| "taxonomy_tag (SetRiskThreshold _) = 11"
| "taxonomy_tag (UpdateAdmin _) = 12"
| "taxonomy_tag CloseSlab = 13"

fun taxonomy_payload :: "operation \<Rightarrow> field list" where
  "taxonomy_payload (InitMarket a) =
     [Bytes32 (toBytes (InitMarketArgs.admin a)), Bytes32 (toBytes (collateralMint a)),
      Bytes32 (bufferFromHex (feedIdHex (indexFeedId a))),
      U64 (maxStalenessSecs a), U16 (confFilterBps a), U8 (invert a), U32 (unitScale a),
      U64 (warmupPeriodSlots a), U64 (InitMarketArgs.maintenanceMarginBps a),
      U64 (InitMarketArgs.initialMarginBps a), U64 (InitMarketArgs.tradingFeeBps a),
      U64 (InitMarketArgs.maxAccounts a), U128 (newAccountFee a),
      U128 (riskReductionThreshold a), U128 (maintenanceFeePerSlot a),
      U64 (maxCrankStalenessSlots a), U64 (liquidationFeeBps a), U128 (liquidationFeeCap a),
      U64 (liquidationBufferBps a), U128 (minLiquidationAbs a)]"
| "taxonomy_payload (InitUser a) = [U64 (InitUserArgs.feePayment a)]"
| "taxonomy_payload (InitLP a) =
     [Bytes32 (toBytes (matcherProgram a)), Bytes32 (toBytes (matcherContext a)),
      U64 (InitLPArgs.feePayment a)]"
| "taxonomy_payload (DepositCollateral a) =
     [U16 (DepositCollateralArgs.userIdx a), U64 (DepositCollateralArgs.amount a)]"
| "taxonomy_payload (WithdrawCollateral a) =
     [U16 (WithdrawCollateralArgs.userIdx a), U64 (WithdrawCollateralArgs.amount a)]"
| "taxonomy_payload (KeeperCrank a) = [U16 (callerIdx a), U8 (if allowPanic a then 1 else 0)]"
| "taxonomy_payload (TradeNoCpi a) =
     [U16 (TradeNoCpiArgs.lpIdx a), U16 (TradeNoCpiArgs.userIdx a), I128 (TradeNoCpiArgs.size' a)]"
| "taxonomy_payload (LiquidateAtOracle a) = [U16 (targetIdx a)]"
| "taxonomy_payload (CloseAccount a) = [U16 (CloseAccountArgs.userIdx a)]"
| "taxonomy_payload (TopUpInsurance a) = [U64 (TopUpInsuranceArgs.amount a)]"
| "taxonomy_payload (TradeCpi a) =
     [U16 (TradeCpiArgs.lpIdx a), U16 (TradeCpiArgs.userIdx a), I128 (TradeCpiArgs.size' a)]"
| "taxonomy_payload (SetRiskThreshold a) = [U128 (newThreshold a)]"
| "taxonomy_payload (UpdateAdmin a) = [Bytes32 (toBytes (newAdmin a))]"
| "taxonomy_payload CloseSlab = []"

definition wire :: "operation \<Rightarrow> bytes" where
  "wire op = word_of_int (taxonomy_tag op) # concat (map packed (taxonomy_payload op))"

text \<open>An operation is well formed when each payload value fits its field.\<close>

fun wellFormed :: "operation \<Rightarrow> bool" where
  "wellFormed (InitMarket a) =
     (validFeedId (indexFeedId a) \<and> list_all fits (taxonomy_payload (InitMarket a)))"
| "wellFormed op = list_all fits (taxonomy_payload op)"

text \<open>The sizes the encoders document for their instruction data.\<close>

fun dataLength :: "operation \<Rightarrow> nat" where
  "dataLength (InitMarket _) = 256"
| "dataLength (InitUser _) = 9"
| "dataLength (InitLP _) = 73"
| "dataLength (DepositCollateral _) = 11"
| "dataLength (WithdrawCollateral _) = 11"
| "dataLength (KeeperCrank _) = 4"
| "dataLength (TradeNoCpi _) = 21"
| "dataLength (LiquidateAtOracle _) = 3"
| "dataLength (CloseAccount _) = 3"
| "dataLength (TopUpInsurance _) = 9"
| "dataLength (TradeCpi _) = 21"
| "dataLength (SetRiskThreshold _) = 17"
| "dataLength (UpdateAdmin _) = 33"
| "dataLength CloseSlab = 1"

text \<open>Values for the worked instances below.\<close>

definition goodHeader :: SlabHeader where
  "goodHeader = \<lparr>magic = 0x504552434f4c4154, version = 1, bump = 255, admin = key1,
                  nonce = 42, lastThrUpdateSlot = 12345\<rparr>"

definition tradeCpiExample :: TradeCpiArgs where
  "tradeCpiExample = \<lparr>lpIdx = 2, userIdx = 3, size' = - 500\<rparr>"

definition oneAccount :: "int \<Rightarrow> int \<Rightarrow> int \<Rightarrow> (nat \<times> Account) list" where
  "oneAccount i c p = [(0, \<lparr>accountId = i, capital = c, positionSize = p\<rparr>)]"

definition engineOf :: "int \<Rightarrow> int \<Rightarrow> int \<Rightarrow> int \<Rightarrow> EngineState" where
  "engineOf v ins nextId used =
     \<lparr>vault = v, insuranceFund = \<lparr>balance = ins, feeRevenue = 0\<rparr>,
      nextAccountId = nextId, numUsedAccounts = used\<rparr>"

text \<open>
  A slab with one used account whose id is 7 while the engine's next id is still 0.
\<close>

definition staleIdSnapshot :: SlabSnapshot where
  "staleIdSnapshot =
     \<lparr>header = goodHeader,
      engine = engineOf 0 0 0 1,
      params = \<lparr>maintenanceMarginBps = 500, initialMarginBps = 1000, tradingFeeBps = 10,
                maxAccounts = 64\<rparr>,
      accounts = oneAccount 7 0 0,
      usedIndices = [0]\<rparr>"

text \<open>A fresh market whose maintenance and initial margins are both 500 bps.\<close>

definition equalMarginSnapshot :: SlabSnapshot where
  "equalMarginSnapshot =
     \<lparr>header = goodHeader,
      engine = engineOf 0 0 0 0,
      params = \<lparr>maintenanceMarginBps = 500, initialMarginBps = 500, tradingFeeBps = 10,
                maxAccounts = 128\<rparr>,
      accounts = [],
      usedIndices = []\<rparr>"

section \<open>Little-endian bytes\<close>

lemma length_le_bytes [simp]: "length (le_bytes n v) = n"
  by (induction n arbitrary: v) simp_all

lemma le_val_le_bytes: "le_val (le_bytes n v) = v mod 256 ^ n"
proof (induction n arbitrary: v)
  case 0
  show ?case by simp
next
  case (Suc n)
  have "uint (word_of_int v :: byte) = v mod 256"
    by (simp add: uint_word_of_int)
  then have "le_val (le_bytes (Suc n) v) = v mod 256 + 256 * (v div 256 mod 256 ^ n)"
    by (simp add: Suc.IH)
  also have "\<dots> = v mod (256 * 256 ^ n)"
    by (simp add: zmod_zmult2_eq)
  finally show ?case by simp
qed

lemma le_val_append: "le_val (xs @ ys) = le_val xs + 256 ^ length xs * le_val ys"
  by (induction xs) (simp_all add: algebra_simps)

lemma le_val_le_bytes_2: "0 \<le> v \<Longrightarrow> v \<le> 65535 \<Longrightarrow> le_val (le_bytes 2 v) = v"
  by (simp add: le_val_le_bytes)

lemma le_bytes_1: "le_bytes 1 v = [word_of_int v]"
  unfolding One_nat_def by simp

lemma le_bytes_append: "le_bytes (m + n) v = le_bytes m v @ le_bytes n (v div 256 ^ m)"
proof (induction m arbitrary: v)
  case 0
  show ?case by simp
next
  case (Suc m)
  have "v div 256 div 256 ^ m = v div (256 * 256 ^ m)"
    by (simp add: zdiv_zmult2_eq)
  then show ?case by (simp add: Suc.IH)
qed

text \<open>The bytes depend on the value modulo \<open>256 ^ n\<close> only.\<close>

lemma le_bytes_cong:
  "a mod 256 ^ n = b mod 256 ^ n \<Longrightarrow> le_bytes n a = le_bytes n b"
proof (induction n arbitrary: a b)
  case 0
  show ?case by simp
next
  case (Suc n)
  have da: "a mod (256 * 256 ^ n) = 256 * (a div 256 mod 256 ^ n) + a mod 256"
    by (simp add: zmod_zmult2_eq)
  have db: "b mod (256 * 256 ^ n) = 256 * (b div 256 mod 256 ^ n) + b mod 256"
    by (simp add: zmod_zmult2_eq)
  from Suc.prems have eq: "256 * (a div 256 mod 256 ^ n) + a mod 256
      = 256 * (b div 256 mod 256 ^ n) + b mod 256"
    using da db by simp
  have r: "a mod 256 = b mod 256"
  proof -
    have "(256 * (a div 256 mod 256 ^ n) + a mod 256) mod 256 = a mod 256" by simp
    moreover have "(256 * (b div 256 mod 256 ^ n) + b mod 256) mod 256 = b mod 256" by simp
    ultimately show ?thesis using eq by simp
  qed
  from eq r have q: "a div 256 mod 256 ^ n = b div 256 mod 256 ^ n" by simp
  have w: "(word_of_int a :: byte) = word_of_int b"
    using r by (simp add: word_of_int_eq_iff take_bit_eq_mod)
  show ?case using w Suc.IH [OF q] by simp
qed


lemma and_mask64: "(x::int) AND 0xFFFFFFFFFFFFFFFF = x mod 2 ^ 64"
proof -
  have m: "(0xFFFFFFFFFFFFFFFF :: int) = mask 64"
    by (simp add: mask_eq_exp_minus_1)
  have "x AND mask 64 = x mod 2 ^ 64"
    by (simp only: take_bit_eq_mask [symmetric] take_bit_eq_mod)
  then show ?thesis
    by (simp only: m)
qed

lemma writeUIntLE_fresh:
  "0 \<le> v \<Longrightarrow> v < 2 ^ (8 * w) \<Longrightarrow> writeUIntLE w (alloc w) v 0 = Inr (le_bytes w v)"
  by (simp add: writeUIntLE_def alloc_def)

lemma write64_two_halves:
  assumes "0 \<le> lo" "lo < 2 ^ 64" "0 \<le> hi" "hi < 2 ^ 64"
  shows "andThen (writeBigUInt64LE (alloc 16) lo 0) (\<lambda>b. writeBigUInt64LE b hi 8)
           = Inr (le_bytes 8 lo @ le_bytes 8 hi)"
  using assms by (simp add: andThen_def writeBigUInt64LE_def writeUIntLE_def alloc_def)

section \<open>The signed 128-bit encoder\<close>

text \<open>
  The encoder never throws: both halves are masked to 64 bits before they are written.
\<close>

lemma encI128LE_bytes:
  "encI128LE v = Inr (le_bytes 8 ((if v < 0 then 2 ^ 128 + v else v) mod 2 ^ 64)
      @ le_bytes 8 ((if v < 0 then 2 ^ 128 + v else v) div 2 ^ 64 mod 2 ^ 64))"
proof -
  define u where "u = (if v < 0 then 2 ^ 128 + v else v)"
  have lo: "0 \<le> u mod 2 ^ 64" "u mod 2 ^ 64 < 2 ^ 64" by simp_all
  have hi: "0 \<le> u div 2 ^ 64 mod 2 ^ 64" "u div 2 ^ 64 mod 2 ^ 64 < 2 ^ 64" by simp_all
  have "encI128LE v = andThen (writeBigUInt64LE (alloc 16) (u mod 2 ^ 64) 0)
        (\<lambda>b. writeBigUInt64LE b (u div 2 ^ 64 mod 2 ^ 64) 8)"
    unfolding encI128LE_def Let_def and_mask64 drop_bit_eq_div push_bit_eq_mult u_def
    by simp
  also have "\<dots> = Inr (le_bytes 8 (u mod 2 ^ 64) @ le_bytes 8 (u div 2 ^ 64 mod 2 ^ 64))"
    by (rule write64_two_halves [OF lo hi])
  finally show ?thesis unfolding u_def .
qed

lemma encI128LE_in_range:
  assumes "- (2 ^ 127) \<le> v" "v < 2 ^ 127"
  shows "\<exists>bs. encI128LE v = Inr bs \<and> length bs = 16 \<and> decI128LE bs = v
           \<and> le_val bs = (if v < 0 then 2 ^ 128 + v else v)"
proof -
  define u where "u = (if v < 0 then 2 ^ 128 + v else v)"
  define bs where "bs = le_bytes 8 (u mod 2 ^ 64) @ le_bytes 8 (u div 2 ^ 64 mod 2 ^ 64)"
  have u: "0 \<le> u" "u < 2 ^ 128" using assms by (auto simp: u_def)
  have enc: "encI128LE v = Inr bs"
    unfolding bs_def u_def by (rule encI128LE_bytes)
  have len: "length bs = 16" by (simp add: bs_def)
  have "u div 2 ^ 64 < 2 ^ 64" using u by simp
  moreover have "0 \<le> u div 2 ^ 64" using u by simp
  ultimately have hi: "u div 2 ^ 64 mod 2 ^ 64 = u div 2 ^ 64" by simp
  have p: "(256::int) ^ 8 = 2 ^ 64" by simp
  have "le_val bs = u mod 2 ^ 64 mod 256 ^ 8 + 256 ^ 8 * (u div 2 ^ 64 mod 2 ^ 64 mod 256 ^ 8)"
    by (simp only: bs_def le_val_append le_val_le_bytes length_le_bytes)
  also have "\<dots> = u mod 2 ^ 64 + 2 ^ 64 * (u div 2 ^ 64)"
    by (simp only: p mod_mod_trivial hi)
  also have "\<dots> = u"
    by (simp only: mod_mult_div_eq)
  finally have val: "le_val bs = u" .
  have "decI128LE bs = v"
    using assms by (auto simp: decI128LE_def val u_def)
  with enc len val show ?thesis unfolding u_def by blast
qed

lemma encI128LE_le_bytes:
  assumes "- (2 ^ 127) \<le> v" "v < 2 ^ 127"
  shows "encI128LE v = Inr (le_bytes 16 v)"
proof -
  define u where "u = (if v < 0 then 2 ^ 128 + v else v)"
  have p: "(256::int) ^ 8 = 2 ^ 64" by simp
  have e128: "(2::int) ^ 128 = 2 ^ 64 * 2 ^ 64" by simp
  have um: "u mod 2 ^ 64 = v mod 2 ^ 64"
    unfolding u_def e128 by (simp only: mod_mult_self4 if_distrib [of "\<lambda>x. x mod _"] if_cancel)
  have lo: "le_bytes 8 (u mod 2 ^ 64) = le_bytes 8 v"
    by (rule le_bytes_cong) (simp only: p mod_mod_trivial um)
  have "(u div 2 ^ 64) mod 2 ^ 64 = (v div 2 ^ 64) mod 2 ^ 64"
  proof (cases "v < 0")
    case True
    have "(2 ^ 64 * 2 ^ 64 + v) div 2 ^ 64 = 2 ^ 64 + v div (2 ^ 64 :: int)"
      by (rule div_mult_self4) simp
    then have "u div 2 ^ 64 = 2 ^ 64 * 1 + v div 2 ^ 64"
      using True unfolding u_def e128 by simp
    then show ?thesis by (simp only: mod_mult_self4)
  next
    case False
    then show ?thesis by (simp add: u_def)
  qed
  then have hi: "le_bytes 8 (u div 2 ^ 64 mod 2 ^ 64) = le_bytes 8 (v div 256 ^ 8)"
    by (intro le_bytes_cong) (simp only: p mod_mod_trivial)
  have "le_bytes 16 v = le_bytes (8 + 8) v" by simp
  also have "\<dots> = le_bytes 8 v @ le_bytes 8 (v div 256 ^ 8)"
    by (rule le_bytes_append)
  finally show ?thesis
    using encI128LE_bytes [of v] lo hi unfolding u_def by simp
qed

lemma decI128LE_le_bytes:
  assumes "- (2 ^ 127) \<le> v" "v < 2 ^ 127"
  shows "decI128LE (le_bytes 16 v) = v"
proof -
  have "le_val (le_bytes 16 v) = v mod 2 ^ 128"
    by (simp add: le_val_le_bytes)
  moreover have "v mod 2 ^ 128 = (if v < 0 then v + 2 ^ 128 else v)"
  proof (cases "v < 0")
    case True
    have "(v + 2 ^ 128) mod 2 ^ 128 = v + 2 ^ 128"
      using assms True by (intro mod_pos_pos_trivial) simp_all
    then show ?thesis using True by simp
  next
    case False
    then show ?thesis using assms by simp
  qed
  ultimately show ?thesis using assms by (auto simp: decI128LE_def)
qed

text \<open>
  Claim C9.  For every integer \<open>v\<close> with \<open>-2^127 \<le> v < 2^127\<close>, \<open>encI128LE\<close> returns
  exactly 16 bytes whose little-endian two's-complement reading is \<open>v\<close>; their unsigned
  reading is \<open>2^128 + v\<close> for a negative \<open>v\<close> and \<open>v\<close> otherwise.
\<close>

theorem encI128LE_roundtrip:
  assumes "- (2 ^ 127) \<le> v" and "v < 2 ^ 127"
  shows "\<exists>bs. encI128LE v = Inr bs \<and> length bs = 16 \<and> decI128LE bs = v
           \<and> le_val bs = (if v < 0 then 2 ^ 128 + v else v)"
  using assms by (rule encI128LE_in_range)

theorem encI128LE_roundtrip_witness:
  "- (2 ^ 127) \<le> (- 1000000 :: int) \<and> (- 1000000 :: int) < 2 ^ 127
   \<and> (\<exists>bs. encI128LE (- 1000000) = Inr bs \<and> length bs = 16 \<and> decI128LE bs = - 1000000
          \<and> le_val bs = 2 ^ 128 + (- 1000000))"
  using encI128LE_roundtrip [of "- 1000000"] by simp

section \<open>Passive quotes\<close>

lemma bigint_div_nonneg: "0 \<le> a \<Longrightarrow> 0 < b \<Longrightarrow> bigint_div a b = a div b"
  by (simp add: bigint_div_def)

text \<open>
  Claim C8.  For every oracle price \<open>p \<ge> 0\<close> and edge \<open>e\<close> with \<open>0 \<le> e \<le> 10000\<close>,
  \<open>computePassiveQuote\<close> returns the bid \<open>floor (p * (10000 - e) / 10000)\<close> and the ask
  \<open>ceiling (p * (10000 + e) / 10000)\<close>, the latter by the idiom
  \<open>(x * bps + denom - 1) / denom\<close>, and so \<open>bid \<le> p \<le> ask\<close>.
\<close>

theorem computePassiveQuote_floor_ceiling:
  assumes "0 \<le> p" and "0 \<le> e" and "e \<le> 10000"
  shows "bid (computePassiveQuote p e) = \<lfloor>real_of_int (p * (10000 - e)) / 10000\<rfloor>
       \<and> ask (computePassiveQuote p e) = \<lceil>real_of_int (p * (10000 + e)) / 10000\<rceil>
       \<and> ask (computePassiveQuote p e) = (p * (10000 + e) + 10000 - 1) div 10000
       \<and> bid (computePassiveQuote p e) \<le> p
       \<and> p \<le> ask (computePassiveQuote p e)"
proof -
  have n1: "0 \<le> p * (10000 - e)" using assms by simp
  have n2: "0 \<le> p * (10000 + e) + 10000 - 1" using assms by simp
  have b: "bid (computePassiveQuote p e) = p * (10000 - e) div 10000"
    using n1 by (simp add: computePassiveQuote_def BPS_DENOM_def bigint_div_nonneg)
  have a: "ask (computePassiveQuote p e) = (p * (10000 + e) + 10000 - 1) div 10000"
    using n2 by (simp add: computePassiveQuote_def BPS_DENOM_def bigint_div_nonneg)
  have fl: "\<lfloor>real_of_int (p * (10000 - e)) / 10000\<rfloor> = p * (10000 - e) div 10000"
    using floor_divide_of_int_eq [of "p * (10000 - e)" 10000, where ?'a = real] by simp
  have ce: "\<lceil>real_of_int (p * (10000 + e)) / 10000\<rceil> = (p * (10000 + e) + 10000 - 1) div 10000"
  proof -
    have "\<lceil>real_of_int (p * (10000 + e)) / 10000\<rceil> = - (- (p * (10000 + e)) div 10000)"
      using ceiling_divide_eq_div [of "p * (10000 + e)" 10000, where ?'a = real] by simp
    also have "\<dots> = (p * (10000 + e) + 10000 - 1) div 10000"
      by (simp add: div_int_pos_iff)
    finally show ?thesis .
  qed
  have le1: "p * (10000 - e) div 10000 \<le> p"
  proof -
    have "p * (10000 - e) \<le> p * 10000" using assms by (simp add: mult_left_mono)
    then have "p * (10000 - e) div 10000 \<le> p * 10000 div 10000" by (rule zdiv_mono1) simp
    then show ?thesis by simp
  qed
  have le2: "p \<le> (p * (10000 + e) + 10000 - 1) div 10000"
  proof -
    have "p * 10000 \<le> p * (10000 + e) + 10000 - 1" using assms by (simp add: algebra_simps)
    then have "p * 10000 div 10000 \<le> (p * (10000 + e) + 10000 - 1) div 10000"
      by (rule zdiv_mono1) simp
    then show ?thesis by simp
  qed
  show ?thesis using b a fl ce le1 le2 by simp
qed

theorem computePassiveQuote_floor_ceiling_witness:
  "(0::int) \<le> 88000001 \<and> (0::int) \<le> 50 \<and> (50::int) \<le> 10000
   \<and> bid (computePassiveQuote 88000001 50) = \<lfloor>real_of_int (88000001 * (10000 - 50)) / 10000\<rfloor>
   \<and> ask (computePassiveQuote 88000001 50) = \<lceil>real_of_int (88000001 * (10000 + 50)) / 10000\<rceil>
   \<and> bid (computePassiveQuote 88000001 50) = 87560000
   \<and> ask (computePassiveQuote 88000001 50) = 88440002
   \<and> bid (computePassiveQuote 88000001 50) \<le> 88000001
   \<and> 88000001 \<le> ask (computePassiveQuote 88000001 50)"
  using computePassiveQuote_floor_ceiling [of 88000001 50] by simp

section \<open>Instruction data\<close>

lemma bufferFromHex_length:
  "list_all (\<lambda>c. hexval c \<noteq> None) s \<Longrightarrow> length (bufferFromHex s) = length s div 2"
  by (induction s rule: bufferFromHex.induct) auto

lemma encodeFeedId_valid:
  assumes "validFeedId s"
  shows "encodeFeedId s = Inr (bufferFromHex (feedIdHex s))"
    and "length (bufferFromHex (feedIdHex s)) = 32"
  using assms bufferFromHex_length [of "feedIdHex s"]
  by (simp_all add: validFeedId_def encodeFeedId_def feedIdHex_def Let_def)

lemma length_toBytes: "length (toBytes k) = 32"
  using toBytes [of k] by simp

lemmas tag_defs = IX_InitMarket_def IX_InitUser_def IX_InitLP_def IX_DepositCollateral_def
  IX_WithdrawCollateral_def IX_KeeperCrank_def IX_TradeNoCpi_def IX_LiquidateAtOracle_def
  IX_CloseAccount_def IX_TopUpInsurance_def IX_TradeCpi_def IX_SetRiskThreshold_def
  IX_UpdateAdmin_def IX_CloseSlab_def

lemmas abi_enc_defs = encU8_abi_def encU16_def encU32_def encU64_def encU128_def encI128_def
  encPubkey_abi_def

lemmas encode_defs = encodeInitUser_def encodeInitLP_def encodeDepositCollateral_def
  encodeWithdrawCollateral_def encodeKeeperCrank_def encodeTradeNoCpi_def
  encodeLiquidateAtOracle_def encodeCloseAccount_def encodeTopUpInsurance_def
  encodeTradeCpi_def encodeSetRiskThreshold_def encodeUpdateAdmin_def encodeCloseSlab_def

lemma encodeInitMarket_wire:
  assumes "wellFormed (InitMarket a)"
  shows "encodeInitMarket a = Inr (wire (InitMarket a))"
    and "length (wire (InitMarket a)) = 256"
  using assms encodeFeedId_valid [of "indexFeedId a"]
  by (simp_all add: encodeInitMarket_def wire_def abi_enc_defs tag_defs le_bytes_1 length_toBytes)

text \<open>
  Every encoder of the ABI module emits the tag of its row and then the payload fields of
  the row in order, and the data has the documented size.
\<close>

lemma encoders_follow_taxonomy:
  assumes "wellFormed op"
  shows "encodeOperation op = Inr (wire op) \<and> length (wire op) = dataLength op"
proof (cases op)
  case (InitMarket a)
  have wf: "wellFormed (InitMarket a)" using assms unfolding InitMarket .
  show ?thesis unfolding InitMarket using encodeInitMarket_wire [OF wf]
    by (simp only: encodeOperation.simps dataLength.simps)
next
  case (InitUser a)
  then show ?thesis using assms
    by (simp add: wire_def abi_enc_defs tag_defs le_bytes_1 encode_defs)
next
  case (InitLP a)
  then show ?thesis using assms
    by (simp add: wire_def abi_enc_defs tag_defs le_bytes_1 length_toBytes encode_defs)
next
  case (DepositCollateral a)
  then show ?thesis using assms
    by (simp add: wire_def abi_enc_defs tag_defs le_bytes_1 encode_defs)
next
  case (WithdrawCollateral a)
  then show ?thesis using assms
    by (simp add: wire_def abi_enc_defs tag_defs le_bytes_1 encode_defs)
next
  case (KeeperCrank a)
  then show ?thesis using assms
    by (simp add: wire_def abi_enc_defs tag_defs le_bytes_1 encode_defs)
next
  case (TradeNoCpi a)
  then show ?thesis using assms
    by (simp add: wire_def abi_enc_defs tag_defs le_bytes_1 encode_defs)
next
  case (LiquidateAtOracle a)
  then show ?thesis using assms
    by (simp add: wire_def abi_enc_defs tag_defs le_bytes_1 encode_defs)
next
  case (CloseAccount a)
  then show ?thesis using assms
    by (simp add: wire_def abi_enc_defs tag_defs le_bytes_1 encode_defs)
next
  case (TopUpInsurance a)
  then show ?thesis using assms
    by (simp add: wire_def abi_enc_defs tag_defs le_bytes_1 encode_defs)
next
  case (TradeCpi a)
  then show ?thesis using assms
    by (simp add: wire_def abi_enc_defs tag_defs le_bytes_1 encode_defs)
next
  case (SetRiskThreshold a)
  then show ?thesis using assms
    by (simp add: wire_def abi_enc_defs tag_defs le_bytes_1 encode_defs)
next
  case (UpdateAdmin a)
  then show ?thesis using assms
    by (simp add: wire_def abi_enc_defs tag_defs le_bytes_1 length_toBytes encode_defs)
next
  case CloseSlab
  then show ?thesis
    by (simp add: wire_def abi_enc_defs tag_defs le_bytes_1 encode_defs)
qed

text \<open>The local encoders of the deployment script, on values that fit.\<close>

lemma encU8_ok: "0 \<le> v \<Longrightarrow> v < 2 ^ 8 \<Longrightarrow> encU8 v = Inr (le_bytes 1 v)"
  using writeUIntLE_fresh [of v 1] by (simp add: encU8_def writeUInt8_def)

lemma encU16LE_ok: "0 \<le> v \<Longrightarrow> v < 2 ^ 16 \<Longrightarrow> encU16LE v = Inr (le_bytes 2 v)"
  using writeUIntLE_fresh [of v 2] by (simp add: encU16LE_def writeUInt16LE_def)

lemma buildKeeperCrankData_bytes:
  assumes "0 \<le> c" "c \<le> 65535"
  shows "buildKeeperCrankData c = Inr (5 # le_bytes 2 c @ [0])"
proof -
  have "encU8 5 = Inr [5]" using encU8_ok [of 5] by (simp add: le_bytes_1)
  moreover have "encU8 0 = Inr [0]" using encU8_ok [of 0] by (simp add: le_bytes_1)
  moreover have "encU16LE c = Inr (le_bytes 2 c)" using assms by (simp add: encU16LE_ok)
  ultimately show ?thesis by (simp add: buildKeeperCrankData_def)
qed

lemma buildTradeCpiData_bytes:
  assumes "0 \<le> l" "l \<le> 65535" "0 \<le> u" "u \<le> 65535" "- (2 ^ 127) \<le> sz" "sz < 2 ^ 127"
  shows "buildTradeCpiData l u sz = Inr (10 # le_bytes 2 l @ le_bytes 2 u @ le_bytes 16 sz)"
proof -
  have "encU8 10 = Inr [10]" using encU8_ok [of 10] by (simp add: le_bytes_1)
  moreover have "encU16LE l = Inr (le_bytes 2 l)" using assms by (simp add: encU16LE_ok)
  moreover have "encU16LE u = Inr (le_bytes 2 u)" using assms by (simp add: encU16LE_ok)
  moreover have "encI128LE sz = Inr (le_bytes 16 sz)"
    using assms(5,6) by (rule encI128LE_le_bytes)
  ultimately show ?thesis by (simp add: buildTradeCpiData_def)
qed

text \<open>
  Claim C2.  For every operation of the taxonomy whose payload values fit their fields, the
  instruction encoder emits the listed tag as the first byte, followed by the listed
  payload fields packed little-endian in the listed order, at the documented size.  In
  particular, for every caller index \<open>c\<close> in \<open>[0, 65535]\<close> the KeeperCrank data is
  exactly 4 bytes: tag 5, \<open>c\<close> as a little-endian \<open>u16\<close> (so \<open>0xFFFF\<close>, the
  permissionless caller, is \<open>255, 255\<close>) and the allow-panic byte; and for every
  \<open>l\<close>, \<open>u\<close> in \<open>[0, 65535]\<close> and size in \<open>[-2^127, 2^127)\<close> the TradeCpi data is
  exactly 21 bytes: tag 10, \<open>l\<close> and \<open>u\<close> as little-endian \<open>u16\<close>, and the size as a
  little-endian \<open>i128\<close>.  Both the encoders of the ABI module and the builders of the
  deployment script do so.
\<close>

theorem instruction_encoding:
  "(wellFormed op \<longrightarrow> encodeOperation op = Inr (wire op) \<and> length (wire op) = dataLength op)
   \<and> (0 \<le> c \<and> c \<le> 65535 \<longrightarrow>
        buildKeeperCrankData c = Inr (5 # le_bytes 2 c @ [0])
      \<and> encodeKeeperCrank \<lparr>callerIdx = c, allowPanic = p\<rparr>
          = Inr (5 # le_bytes 2 c @ [if p then 1 else 0])
      \<and> length (5 # le_bytes 2 c @ [0]) = 4
      \<and> length (5 # le_bytes 2 c @ [if p then 1 else 0 :: byte]) = 4
      \<and> le_val (le_bytes 2 c) = c)
   \<and> (0 \<le> l \<and> l \<le> 65535 \<and> 0 \<le> u \<and> u \<le> 65535 \<and> - (2 ^ 127) \<le> sz \<and> sz < 2 ^ 127 \<longrightarrow>
        buildTradeCpiData l u sz = Inr (10 # le_bytes 2 l @ le_bytes 2 u @ le_bytes 16 sz)
      \<and> encodeTradeCpi \<lparr>lpIdx = l, userIdx = u, size' = sz\<rparr>
          = Inr (10 # le_bytes 2 l @ le_bytes 2 u @ le_bytes 16 sz)
      \<and> length (10 # le_bytes 2 l @ le_bytes 2 u @ le_bytes 16 sz) = 21
      \<and> le_val (le_bytes 2 l) = l \<and> le_val (le_bytes 2 u) = u
      \<and> decI128LE (le_bytes 16 sz) = sz)"
proof (intro conjI impI)
  assume "wellFormed op"
  then show "encodeOperation op = Inr (wire op)" and "length (wire op) = dataLength op"
    using encoders_follow_taxonomy by blast+
next
  assume c: "0 \<le> c \<and> c \<le> 65535"
  then show "buildKeeperCrankData c = Inr (5 # le_bytes 2 c @ [0])"
    by (simp add: buildKeeperCrankData_bytes)
  show "encodeKeeperCrank \<lparr>callerIdx = c, allowPanic = p\<rparr>
          = Inr (5 # le_bytes 2 c @ [if p then 1 else 0])"
    using c by (simp add: encodeKeeperCrank_def abi_enc_defs tag_defs le_bytes_1)
  show "length (5 # le_bytes 2 c @ [0]) = 4" by simp
  show "length (5 # le_bytes 2 c @ [if p then 1 else 0 :: byte]) = 4" by simp
  show "le_val (le_bytes 2 c) = c" using c by (simp add: le_val_le_bytes_2)
next
  assume a: "0 \<le> l \<and> l \<le> 65535 \<and> 0 \<le> u \<and> u \<le> 65535 \<and> - (2 ^ 127) \<le> sz \<and> sz < 2 ^ 127"
  then show "buildTradeCpiData l u sz = Inr (10 # le_bytes 2 l @ le_bytes 2 u @ le_bytes 16 sz)"
    by (simp add: buildTradeCpiData_bytes)
  show "encodeTradeCpi \<lparr>lpIdx = l, userIdx = u, size' = sz\<rparr>
          = Inr (10 # le_bytes 2 l @ le_bytes 2 u @ le_bytes 16 sz)"
    using a by (simp add: encodeTradeCpi_def abi_enc_defs tag_defs le_bytes_1)
  show "length (10 # le_bytes 2 l @ le_bytes 2 u @ le_bytes 16 sz) = 21" by simp
  show "le_val (le_bytes 2 l) = l" "le_val (le_bytes 2 u) = u"
    using a by (simp_all add: le_val_le_bytes_2)
  show "decI128LE (le_bytes 16 sz) = sz" using a by (simp add: decI128LE_le_bytes)
qed

lemma tradeCpiExample_wire:
  "wire (TradeCpi tradeCpiExample)
   = [10, 2, 0, 3, 0, 12, 254, 255, 255, 255, 255, 255, 255, 255, 255, 255, 255, 255, 255, 255, 255]"
  by code_simp

lemma le_bytes_examples:
  "le_bytes 2 2 = [2, 0]"
  "le_bytes 2 3 = [3, 0]"
  "le_bytes 2 65535 = [255, 255]"
  "le_bytes 16 (- 500)
   = [12, 254, 255, 255, 255, 255, 255, 255, 255, 255, 255, 255, 255, 255, 255, 255]"
  by code_simp+

theorem instruction_encoding_witness:
  "wellFormed (TradeCpi tradeCpiExample)
   \<and> encodeOperation (TradeCpi tradeCpiExample)
       = Inr [10, 2, 0, 3, 0, 12, 254, 255, 255, 255, 255, 255, 255, 255, 255, 255, 255, 255, 255,
              255, 255]
   \<and> (0::int) \<le> 65535 \<and> (65535::int) \<le> 65535
   \<and> buildKeeperCrankData 65535 = Inr [5, 255, 255, 0]
   \<and> encodeKeeperCrank \<lparr>callerIdx = 65535, allowPanic = False\<rparr> = Inr [5, 255, 255, 0]
   \<and> (0::int) \<le> 2 \<and> (2::int) \<le> 65535 \<and> (0::int) \<le> 3 \<and> (3::int) \<le> 65535
   \<and> - (2 ^ 127) \<le> (- 500 :: int) \<and> (- 500 :: int) < 2 ^ 127
   \<and> buildTradeCpiData 2 3 (- 500)
       = Inr [10, 2, 0, 3, 0, 12, 254, 255, 255, 255, 255, 255, 255, 255, 255, 255, 255, 255, 255,
              255, 255]
   \<and> decI128LE [12, 254, 255, 255, 255, 255, 255, 255, 255, 255, 255, 255, 255, 255, 255, 255]
       = - 500"
  using instruction_encoding [of "TradeCpi tradeCpiExample" 65535 False 2 3 "- 500"]
  by (simp add: tradeCpiExample_wire le_bytes_examples) (simp add: tradeCpiExample_def)

text \<open>
  The \<open>InitMarket\<close> arguments of the ABI test are well formed, and their data is 256
  bytes that begin with tag 0.
\<close>

lemma initMarketExample_feedId:
  "validFeedId ''e62df6c8b4a85fe1a67db44dc12de5db330f7ac66b72dc658afedf0f4a415b43''"
  by code_simp

lemma initMarketExample_wellFormed: "wellFormed (InitMarket initMarketExample)"
  using encodeFeedId_valid(2) [OF initMarketExample_feedId]
  by (simp add: initMarketExample_def initMarketExample_feedId length_toBytes)

lemma initMarketExample_data:
  "\<exists>bs. encodeInitMarket initMarketExample = Inr (0 # bs) \<and> length (0 # bs) = 256"
  using encoders_follow_taxonomy [OF initMarketExample_wellFormed]
  by (simp add: wire_def)

text \<open>
  The byte vectors of the ABI tests hold of the modelled primitive encoders, and the
  script's own encoders agree with them.
\<close>

lemma abi_test_vectors:
  "encU8_abi 255 = Inr [255]"
  "encU16 0xabcd = Inr [0xcd, 0xab]"
  "encU16 65535 = Inr [255, 255]"
  "encU64 1000000 = Inr [64, 66, 15, 0, 0, 0, 0, 0]"
  "encU64 0xffffffffffffffff = Inr [255, 255, 255, 255, 255, 255, 255, 255]"
  "encU128 (2 ^ 64) = Inr [0, 0, 0, 0, 0, 0, 0, 0, 1, 0, 0, 0, 0, 0, 0, 0]"
  "encU128 0x0102030405060708090a0b0c0d0e0f10
     = Inr [0x10, 0x0f, 0x0e, 0x0d, 0x0c, 0x0b, 0x0a, 0x09, 0x08, 0x07, 0x06, 0x05, 0x04, 0x03,
            0x02, 0x01]"
  "encI128 (- 1)
     = Inr [255, 255, 255, 255, 255, 255, 255, 255, 255, 255, 255, 255, 255, 255, 255, 255]"
  "encI128 (- 2)
     = Inr [254, 255, 255, 255, 255, 255, 255, 255, 255, 255, 255, 255, 255, 255, 255, 255]"
  "encI128 1000000 = Inr [64, 66, 15, 0, 0, 0, 0, 0, 0, 0, 0, 0, 0, 0, 0, 0]"
  "encI128 (- 1000000)
     = Inr [192, 189, 240, 255, 255, 255, 255, 255, 255, 255, 255, 255, 255, 255, 255, 255]"
  "encodeKeeperCrank \<lparr>callerIdx = 1, allowPanic = True\<rparr> = Inr [5, 1, 0, 1]"
  by code_simp+

lemma script_encoder_vectors:
  "encI128LE (- 1000000)
     = Inr [192, 189, 240, 255, 255, 255, 255, 255, 255, 255, 255, 255, 255, 255, 255, 255]"
  "encU128LE (2 ^ 64) = Inr [0, 0, 0, 0, 0, 0, 0, 0, 1, 0, 0, 0, 0, 0, 0, 0]"
  "encU128LE (- 1) = Inl RangeError"
  "buildKeeperCrankData 65536 = Inl RangeError"
  by code_simp+

section \<open>Account metas\<close>

text \<open>
  Claim C10.  \<open>buildAccountMetas\<close> throws exactly when the key list and the spec list
  differ in length; otherwise it returns a list of the spec's length whose \<open>i\<close>-th element
  has the \<open>i\<close>-th key, the signer flag and the writable flag of the \<open>i\<close>-th spec.
\<close>

theorem buildAccountMetas_spec:
  "((\<exists>e. buildAccountMetas spec keys = Inl e) \<longleftrightarrow> length keys \<noteq> length spec)
   \<and> (length keys = length spec \<longrightarrow>
        (\<exists>metas. buildAccountMetas spec keys = Inr metas \<and> length metas = length spec
           \<and> (\<forall>i < length spec. pubkey (metas ! i) = keys ! i
                  \<and> isSigner (metas ! i) = signer (spec ! i)
                  \<and> isWritable (metas ! i) = writable (spec ! i))))"
  by (simp add: buildAccountMetas_def)

theorem buildAccountMetas_spec_witness:
  "length [key0, key1] = length ACCOUNTS_SET_RISK_THRESHOLD
   \<and> buildAccountMetas ACCOUNTS_SET_RISK_THRESHOLD [key0, key1]
       = Inr [\<lparr>pubkey = key0, isSigner = True, isWritable = False\<rparr>,
              \<lparr>pubkey = key1, isSigner = False, isWritable = True\<rparr>]
   \<and> length [key0] \<noteq> length ACCOUNTS_SET_RISK_THRESHOLD
   \<and> (\<exists>e. buildAccountMetas ACCOUNTS_SET_RISK_THRESHOLD [key0] = Inl e)"
  using buildAccountMetas_spec [of ACCOUNTS_SET_RISK_THRESHOLD "[key0, key1]"]
        buildAccountMetas_spec [of ACCOUNTS_SET_RISK_THRESHOLD "[key0]"]
  by (simp add: ACCOUNTS_SET_RISK_THRESHOLD_def buildAccountMetas_def upt_rec)

section \<open>The invariant checks\<close>

text \<open>The loops of the checks compute the sums over the used accounts.\<close>

lemma foldl_used:
  "foldl (\<lambda>total idx. case m idx of None \<Rightarrow> total | Some acc \<Rightarrow> total + g acc) z used
     = (z::int) + sum_list (map g (List.map_filter m used))"
  by (induction used arbitrary: z) (simp_all split: option.splits)

lemma totalUserCapital_eq: "totalUserCapital accs used = sum_capital accs used"
  unfolding totalUserCapital_def sum_capital_def usedAccounts_def
  by (simp add: foldl_used)

lemma totalLong_eq: "totalLong accs used = sum_long accs used"
proof -
  have "totalLong accs used
        = foldl (\<lambda>total idx. case accountMap accs idx of None \<Rightarrow> total
                   | Some acc \<Rightarrow> total + max (positionSize acc) 0) 0 used"
    unfolding totalLong_def
    by (rule arg_cong [where f = "\<lambda>f. foldl f 0 used"])
       (auto simp: fun_eq_iff split: option.splits)
  then show ?thesis
    by (simp add: foldl_used sum_long_def usedAccounts_def)
qed

lemma totalShort_eq: "totalShort accs used = sum_short accs used"
proof -
  have "totalShort accs used
        = foldl (\<lambda>total idx. case accountMap accs idx of None \<Rightarrow> total
                   | Some acc \<Rightarrow> total + max (- positionSize acc) 0) 0 used"
    unfolding totalShort_def
    by (rule arg_cong [where f = "\<lambda>f. foldl f 0 used"])
       (auto simp: fun_eq_iff split: option.splits)
  then show ?thesis
    by (simp add: foldl_used sum_short_def usedAccounts_def)
qed

subsection \<open>Collateral conservation\<close>

text \<open>
  Claim C1 as stated fails: with one used account of capital 10,000,000, an insurance
  balance of 1,000,000, no positive PnL and a vault holding 11,150,000, the check passes,
  although the vault is 150,000 lamports away from the sum and the operation had two
  settlements.
\<close>

theorem checkCollateralConservation_counterexample:
  "InvariantResult.passed
     (checkCollateralConservation (Inr 11150000) (oneAccount 0 10000000 0) [0]
        (engineOf 11150000 1000000 1 1))
   \<and> \<not> spec_conservation 11150000 (sum_capital (oneAccount 0 10000000 0) [0]) 1000000 0 2"
  by (simp add: checkCollateralConservation_def Let_def totalUserCapital_def sum_capital_def
       usedAccounts_def spec_conservation_def oneAccount_def engineOf_def accountMap_def)

text \<open>
  Claim C1, amended.  For every slab state whose \<open>pnl_pos_tot\<close> is zero, the
  collateral-conservation check passes if and only if the vault's token balance could be
  fetched and differs from the capital of the used accounts plus the insurance balance plus
  \<open>pnl_pos_tot\<close> by at most 200,000 (the tolerance the check allows for fee accounting).
\<close>

theorem checkCollateralConservation_tolerance:
  assumes "pnl_pos_tot = 0"
  shows "InvariantResult.passed (checkCollateralConservation vaultFetch accs used eng)
     \<longleftrightarrow> (\<exists>v. vaultFetch = Inr v
           \<and> \<bar>v - (sum_capital accs used + balance (insuranceFund eng) + pnl_pos_tot)\<bar> \<le> 200000)"
  using assms
  by (cases vaultFetch)
     (auto simp: checkCollateralConservation_def Let_def totalUserCapital_eq abs_if)

theorem checkCollateralConservation_tolerance_witness:
  "(0::int) = 0
   \<and> InvariantResult.passed
       (checkCollateralConservation (Inr 11150000) (oneAccount 0 10000000 0) [0]
          (engineOf 11150000 1000000 1 1))
   \<and> \<bar>11150000 - (sum_capital (oneAccount 0 10000000 0) [0] + 1000000 + 0)\<bar> \<le> 200000
   \<and> \<not> InvariantResult.passed
       (checkCollateralConservation (Inr 11200001) (oneAccount 0 10000000 0) [0]
          (engineOf 11200001 1000000 1 1))
   \<and> \<not> InvariantResult.passed
       (checkCollateralConservation (Inl ''TokenAccountNotFoundError'') (oneAccount 0 10000000 0)
          [0] (engineOf 11150000 1000000 1 1))"
  using checkCollateralConservation_tolerance
          [of 0 "Inr 11150000" "oneAccount 0 10000000 0" "[0]" "engineOf 11150000 1000000 1 1"]
        checkCollateralConservation_tolerance
          [of 0 "Inr 11200001" "oneAccount 0 10000000 0" "[0]" "engineOf 11200001 1000000 1 1"]
        checkCollateralConservation_tolerance
          [of 0 "Inl ''TokenAccountNotFoundError''" "oneAccount 0 10000000 0" "[0]"
              "engineOf 11150000 1000000 1 1"]
  by (simp add: sum_capital_def usedAccounts_def oneAccount_def engineOf_def accountMap_def)

subsection \<open>Open interest\<close>

text \<open>
  Claim C3 as stated fails: with a single used account that is long 5 units the sum of the
  long positions is 5 and the sum of the short positions is 0, and the check passes.
\<close>

theorem checkOpenInterestBalance_counterexample:
  "InvariantResult.passed (checkOpenInterestBalance (oneAccount 0 0 5) [0])
   \<and> sum_long (oneAccount 0 0 5) [0] \<noteq> sum_short (oneAccount 0 0 5) [0]"
  by (simp add: checkOpenInterestBalance_def Let_def sum_long_def sum_short_def usedAccounts_def
      accountMap_def oneAccount_def)

text \<open>
  Claim C3, amended.  For every slab state the open-interest check passes: it is
  informational.  Its message reports the sum of the positive position sizes over the used
  accounts, the sum of the absolute values of the negative ones, and the absolute
  difference of the two.
\<close>

theorem checkOpenInterestBalance_informational:
  "InvariantResult.passed (checkOpenInterestBalance accs used)
   \<and> message (checkOpenInterestBalance accs used)
       = Some (''Long: '' @ show_int (sum_long accs used) @ '', Short: ''
               @ show_int (sum_short accs used) @ '', Imbalance: ''
               @ show_int \<bar>sum_long accs used - sum_short accs used\<bar>)"
  by (simp add: checkOpenInterestBalance_def Let_def totalLong_eq totalShort_eq abs_if)

subsection \<open>Account ids\<close>

text \<open>Decimal rendering is injective, so the set of rendered ids is the set of ids.\<close>

lemma digit_char_inj: "d < 10 \<Longrightarrow> d' < 10 \<Longrightarrow> digit_char d = digit_char d' \<Longrightarrow> d = d'"
  by (simp add: digit_char_def char_of_eq_iff take_bit_eq_mod)

lemma digit_char_not_minus: "d < 10 \<Longrightarrow> digit_char d \<noteq> CHR ''-''"
proof
  assume d: "d < 10" and e: "digit_char d = CHR ''-''"
  have "of_char (digit_char d) = (48 + d :: nat)"
    using d by (simp add: digit_char_def take_bit_eq_mod)
  then show False using e by simp
qed

lemma show_nat_nonempty: "show_nat n \<noteq> []"
  by (subst show_nat.simps) simp

lemma show_nat_hd: "hd (show_nat n) \<noteq> CHR ''-''"
proof (induction n rule: show_nat.induct)
  case (1 n)
  show ?case
  proof (cases "n < 10")
    case True
    then show ?thesis by (subst show_nat.simps) (simp add: digit_char_not_minus)
  next
    case False
    then have "hd (show_nat n) = hd (show_nat (n div 10))"
      by (subst show_nat.simps) (simp add: show_nat_nonempty)
    with 1 False show ?thesis by simp
  qed
qed

lemma show_nat_inj: "show_nat n = show_nat m \<Longrightarrow> n = m"
proof (induction n arbitrary: m rule: show_nat.induct)
  case (1 n)
  show ?case
  proof (cases "n < 10")
    case n: True
    show ?thesis
    proof (cases "m < 10")
      case True
      with n "1.prems" show ?thesis
        by (simp add: show_nat.simps [of n] show_nat.simps [of m] digit_char_inj)
    next
      case False
      with n "1.prems" show ?thesis
        by (simp add: show_nat.simps [of n] show_nat.simps [of m] show_nat_nonempty
              show_nat_nonempty [symmetric])
    qed
  next
    case n: False
    show ?thesis
    proof (cases "m < 10")
      case True
      with n "1.prems" show ?thesis
        by (simp add: show_nat.simps [of n] show_nat.simps [of m] show_nat_nonempty
              show_nat_nonempty [symmetric])
    next
      case False
      with n "1.prems" have e: "show_nat (n div 10) = show_nat (m div 10)"
        and d: "digit_char (n mod 10) = digit_char (m mod 10)"
        by (simp_all add: show_nat.simps [of n] show_nat.simps [of m])
      from "1.IH" [OF n e] have "n div 10 = m div 10" .
      moreover from d have "n mod 10 = m mod 10" by (simp add: digit_char_inj)
      ultimately show ?thesis by (metis div_mult_mod_eq)
    qed
  qed
qed

lemma show_int_inj: "show_int i = show_int j \<Longrightarrow> i = j"
proof -
  assume e: "show_int i = show_int j"
  have neg: False if "a < 0" "\<not> b < 0" "show_int a = show_int b" for a b
  proof -
    from that have "CHR ''-'' # show_nat (nat (- a)) = show_nat (nat b)"
      by (simp add: show_int_def)
    then have "hd (show_nat (nat b)) = CHR ''-''" by (metis list.sel(1))
    then show False using show_nat_hd by blast
  qed
  show ?thesis
  proof (cases "i < 0"; cases "j < 0")
    assume "i < 0" "j < 0"
    with e have "show_nat (nat (- i)) = show_nat (nat (- j))" by (simp add: show_int_def)
    then have "nat (- i) = nat (- j)" by (rule show_nat_inj)
    with \<open>i < 0\<close> \<open>j < 0\<close> show ?thesis by simp
  next
    assume "i < 0" "\<not> j < 0"
    with neg [of i j] e show ?thesis by blast
  next
    assume "\<not> i < 0" "j < 0"
    with neg [of j i] e show ?thesis by auto
  next
    assume "\<not> i < 0" "\<not> j < 0"
    with e have "show_nat (nat i) = show_nat (nat j)" by (simp add: show_int_def)
    then have "nat i = nat j" by (rule show_nat_inj)
    with \<open>\<not> i < 0\<close> \<open>\<not> j < 0\<close> show ?thesis by simp
  qed
qed

lemma accountIdLoop_distinct:
  "InvariantResult.passed (accountIdLoop m seen used) \<Longrightarrow>
     distinct (map accountId (List.map_filter m used))
     \<and> (\<forall>a \<in> set (List.map_filter m used). show_int (accountId a) \<notin> seen)"
proof (induction used arbitrary: seen)
  case Nil
  show ?case by simp
next
  case (Cons idx rest)
  show ?case
  proof (cases "m idx")
    case None
    with Cons show ?thesis by simp
  next
    case (Some acc)
    with Cons.prems have fresh: "show_int (accountId acc) \<notin> seen"
      and rest: "InvariantResult.passed
                   (accountIdLoop m (insert (show_int (accountId acc)) seen) rest)"
      by (auto simp: Let_def split: if_splits)
    from Cons.IH [OF rest] have d: "distinct (map accountId (List.map_filter m rest))"
      and n: "\<forall>a \<in> set (List.map_filter m rest).
                show_int (accountId a) \<notin> insert (show_int (accountId acc)) seen"
      by blast+
    from n have "accountId acc \<notin> accountId ` set (List.map_filter m rest)" by auto
    with d n fresh Some show ?thesis by auto
  qed
qed

text \<open>
  The first half of invariant P3 holds of every state the full check accepts: the ids of
  the used accounts are pairwise distinct.
\<close>

lemma checkAll_ids_distinct:
  assumes "InvariantReport.passed (checkAll vaultFetch snapshot)"
  shows "distinct (map accountId
           (usedAccounts (SlabSnapshot.accounts snapshot) (usedIndices snapshot)))"
proof -
  from assms have "InvariantResult.passed
      (checkAccountIdUniqueness (SlabSnapshot.accounts snapshot) (usedIndices snapshot))"
    by (simp add: checkAll_def Let_def)
  then show ?thesis
    unfolding checkAccountIdUniqueness_def usedAccounts_def
    using accountIdLoop_distinct by blast
qed

text \<open>
  Claim C4.  The claim asks that every state the full check accepts has pairwise distinct
  account ids and a \<open>next_account_id\<close> above every used id.  The check \<open>I7\<close> documents the
  second half and does not test it: the slab below, whose only used account has id 7 while
  \<open>next_account_id\<close> is 0, passes all seven checks.
\<close>

theorem checkAll_accepts_stale_next_account_id:
  "InvariantReport.passed (checkAll (Inr 0) staleIdSnapshot)
   \<and> map InvariantResult.passed (results (checkAll (Inr 0) staleIdSnapshot))
       = [True, True, True, True, True, True, True]
   \<and> map accountId (usedAccounts (SlabSnapshot.accounts staleIdSnapshot)
                      (usedIndices staleIdSnapshot)) = [7]
   \<and> nextAccountId (SlabSnapshot.engine staleIdSnapshot) = 0"
  by (simp add: checkAll_def staleIdSnapshot_def goodHeader_def checkMagicNumber_def
      EXPECTED_MAGIC_def checkBitmapConsistency_def checkAccountIdUniqueness_def
      checkCollateralConservation_def checkOpenInterestBalance_def checkNoNegativeBalances_def
      checkAccountCountConsistency_def accountMap_def totalUserCapital_def Let_def
      usedAccounts_def oneAccount_def engineOf_def)

section \<open>The conservation check of the happy-path script\<close>

lemma foldl_capital:
  "foldl (\<lambda>s a. s + capital (snd a)) z xs = z + sum_list (map (capital \<circ> snd) xs)"
  by (induction xs arbitrary: z) simp_all

text \<open>
  The check returns true exactly when the residual, the vault minus the capital of the
  accounts minus the insurance balance, is not negative.
\<close>

lemma checkConservation_residual:
  "checkConservation state label \<longleftrightarrow>
     0 \<le> vault (State.engine state) - sum_list (map (capital \<circ> snd) (State.accounts state))
           - balance (insuranceFund (State.engine state))"
  by (simp add: checkConservation_def Let_def foldl_capital)

section \<open>Margin order\<close>

text \<open>
  Claim C6 as stated fails: the market-boot test accepts a market whose maintenance margin
  equals its initial margin.
\<close>

theorem T1_3_margin_order_counterexample:
  "T1_3_market_config_verification equalMarginSnapshot = Inr ()
   \<and> \<not> RiskParams.maintenanceMarginBps (params equalMarginSnapshot)
        < RiskParams.initialMarginBps (params equalMarginSnapshot)"
  by (simp add: T1_3_market_config_verification_def andThen_def assert_def
      equalMarginSnapshot_def)

text \<open>
  Claim C6, amended.  The margin order the market-boot verification enforces is not strict:
  a market state is accepted if and only if both margins are positive and
  \<open>maintenance_margin_bps \<le> initial_margin_bps\<close>; a state with equal positive margins is
  accepted.
\<close>

theorem T1_3_margin_order:
  "T1_3_market_config_verification snapshot = Inr ()
     \<longleftrightarrow> 0 < RiskParams.initialMarginBps (params snapshot)
       \<and> 0 < RiskParams.maintenanceMarginBps (params snapshot)
       \<and> RiskParams.maintenanceMarginBps (params snapshot)
           \<le> RiskParams.initialMarginBps (params snapshot)"
  by (auto simp: T1_3_market_config_verification_def andThen_def assert_def)

theorem T1_3_margin_order_witness:
  "T1_3_market_config_verification equalMarginSnapshot = Inr ()
   \<and> T1_3_market_config_verification staleIdSnapshot = Inr ()
   \<and> T1_3_market_config_verification
        (equalMarginSnapshot\<lparr>params := \<lparr>maintenanceMarginBps = 1000, initialMarginBps = 500,
                                         tradingFeeBps = 10, maxAccounts = 128\<rparr>\<rparr>)
       = Inl (Error ''Assertion failed: IM ratio should be >= MM ratio'')"
  using T1_3_margin_order [of equalMarginSnapshot] T1_3_margin_order [of staleIdSnapshot]
  by (simp add: equalMarginSnapshot_def staleIdSnapshot_def T1_3_market_config_verification_def
      andThen_def assert_def)

section \<open>The magic number\<close>

text \<open>
  The magic-number check passes exactly when the parsed header carries the constant
  \<open>0x504552434f4c4154\<close>.
\<close>

lemma checkMagicNumber_passed:
  "InvariantResult.passed (checkMagicNumber h) \<longleftrightarrow> magic h = 0x504552434f4c4154"
  by (simp add: checkMagicNumber_def EXPECTED_MAGIC_def)

lemma checkMagicNumber_goodHeader: "InvariantResult.passed (checkMagicNumber goodHeader)"
  by (simp add: checkMagicNumber_passed goodHeader_def)

end
